theory Spec2Isabelle
  imports Complex_Main
begin

section \<open>Python values and exceptions\<close>

text \<open>
  The payload of a \<^verbatim>\<open>ValidationError\<close> as \<^verbatim>\<open>validate_unique\<close> builds it: either a
  message string, or the dictionary \<^verbatim>\<open>error_info\<close> that maps a field name to a list of
  messages (kept as an association list in insertion order, as a Python dict is).
\<close>

datatype verr = Message string | Fields "(string \<times> string list) list"

text \<open>
  Every \<^verbatim>\<open>raise\<close> of the source, and every exception the Python semantics raises in
  the modelled code (a missing key, a missing attribute, a call with a missing positional
  argument), is a value of this type.
\<close>

datatype error =
    ValueError string
  | TypeError string
  | KeyError string
  | AttributeError string
  | ValidationError verr
  | NoResultFound
  | InvalidRequestError string
  | DatabaseError string

text \<open>
  \<^verbatim>\<open>ValidationError\<close> in \<^verbatim>\<open>models.py\<close> is the class of pydantic. Its constructor
  takes two positional arguments, the errors and the model they belong to. The statement
  \<^verbatim>\<open>raise ValidationError(...)\<close> evaluates the call first: with two arguments an
  instance is built and raised, with any other number the call itself raises
  \<^verbatim>\<open>TypeError\<close>. The result is the exception that the statement ends with.
\<close>

datatype init_arg = Arg_errors verr | Arg_model string

definition missing_model :: string where
  "missing_model = ''__init__() missing 1 required positional argument: model''"

definition raise_ValidationError :: "init_arg list \<Rightarrow> error" where
  "raise_ValidationError call_args =
     (case call_args of
        [] \<Rightarrow> TypeError ''__init__() missing 2 required positional arguments: errors and model''
      | [errors] \<Rightarrow> TypeError missing_model
      | [errors, model] \<Rightarrow>
          (case errors of
             Arg_errors e \<Rightarrow> ValidationError e
           | Arg_model m \<Rightarrow> TypeError ''errors is not a sequence of errors'')
      | _ \<Rightarrow> TypeError ''__init__() takes 3 positional arguments but more were given'')"

text \<open>
  A \<^verbatim>\<open>datetime\<close>: the wall-clock reading in microseconds and the attached
  \<^verbatim>\<open>tzinfo\<close>, which is \<open>None\<close> for a naive value and a \<^verbatim>\<open>ZoneInfo\<close> otherwise.
\<close>

datatype tz = ZoneInfo string

record pydatetime =
  wall :: int
  tzinfo :: "tz option"

text \<open>
  A Python \<^verbatim>\<open>float\<close>: a finite value, an infinity or NaN. The comparisons are
  those of IEEE 754: every comparison with NaN is false.
\<close>

datatype pyfloat = Finite real | PosInf | NegInf | NaN

fun float_lt :: "pyfloat \<Rightarrow> pyfloat \<Rightarrow> bool" where
  "float_lt NaN _ = False"
| "float_lt _ NaN = False"
| "float_lt (Finite a) (Finite b) = (a < b)"
| "float_lt (Finite a) PosInf = True"
| "float_lt (Finite a) NegInf = False"
| "float_lt PosInf _ = False"
| "float_lt NegInf NegInf = False"
| "float_lt NegInf _ = True"

definition float_gt :: "pyfloat \<Rightarrow> pyfloat \<Rightarrow> bool" where
  "float_gt a b = float_lt b a"

fun float_le :: "pyfloat \<Rightarrow> pyfloat \<Rightarrow> bool" where
  "float_le NaN _ = False"
| "float_le _ NaN = False"
| "float_le (Finite a) (Finite b) = (a \<le> b)"
| "float_le (Finite a) PosInf = True"
| "float_le (Finite a) NegInf = False"
| "float_le PosInf PosInf = True"
| "float_le PosInf _ = False"
| "float_le NegInf _ = True"

text \<open>JSON data, for the columns declared with \<^verbatim>\<open>sa.JSON\<close>.\<close>

datatype json =
    JNull
  | JBool bool
  | JInt int
  | JStr string
  | JList "json list"
  | JDict "(string \<times> json) list"

section \<open>util.py\<close>

text \<open>
  \<^verbatim>\<open>nowfun\<close> reads the system clock with \<^verbatim>\<open>datetime.utcnow()\<close>, which gives a
  naive value, and attaches the UTC zone. The clock reading is the argument.
\<close>

definition utcnow :: "int \<Rightarrow> pydatetime" where
  "utcnow clock = \<lparr>wall = clock, tzinfo = None\<rparr>"

definition replace_tzinfo :: "pydatetime \<Rightarrow> tz \<Rightarrow> pydatetime" where
  "replace_tzinfo value z = value\<lparr>tzinfo := Some z\<rparr>"

definition nowfun :: "int \<Rightarrow> pydatetime" where
  "nowfun clock = replace_tzinfo (utcnow clock) (ZoneInfo ''UTC'')"

text \<open>
  The attributes of a \<^verbatim>\<open>zoneinfo.ZoneInfo\<close> object of the Python standard library.
  \<^verbatim>\<open>localize\<close> is a method of the zones of \<^verbatim>\<open>pytz\<close>; a \<^verbatim>\<open>ZoneInfo\<close> has none, and
  looking it up raises \<^verbatim>\<open>AttributeError\<close>.
\<close>

definition ZoneInfo_attributes :: "string list" where
  "ZoneInfo_attributes =
     [''key'', ''utcoffset'', ''dst'', ''tzname'', ''fromutc'',
      ''from_file'', ''no_cache'', ''clear_cache'']"

text \<open>
  Calling a method of a \<^verbatim>\<open>ZoneInfo\<close> on a \<^verbatim>\<open>datetime\<close>, for a result that is a
  \<^verbatim>\<open>datetime\<close>: the attribute lookup comes first; \<^verbatim>\<open>fromutc\<close> is the one method
  with such a result, and it demands that the argument carries the zone itself.
\<close>

definition ZoneInfo_call :: "tz \<Rightarrow> string \<Rightarrow> pydatetime \<Rightarrow> error + pydatetime" where
  "ZoneInfo_call z m value =
     (if m \<notin> set ZoneInfo_attributes then Inl (AttributeError m)
      else if m = ''fromutc'' then
        (if tzinfo value = Some z then Inr value
         else Inl (ValueError ''fromutc: dt.tzinfo is not self''))
      else Inl (TypeError m))"

definition make_aware :: "pydatetime \<Rightarrow> error + pydatetime" where
  "make_aware value =
     (if tzinfo value = None then Inr (replace_tzinfo value (ZoneInfo ''UTC''))
      else ZoneInfo_call (ZoneInfo ''UTC'') ''localize'' value)"

section \<open>models.py: the schedule models\<close>

text \<open>
  \<^verbatim>\<open>ModelMixin\<close> is the base class of every model; a subclass is a record extension.
  The primary key is \<open>None\<close> until the database assigns it.
\<close>

record ModelMixin =
  id' :: "int option"
  created_at :: pydatetime
  updated_at :: pydatetime

datatype IntervalPeriod = DAYS | HOURS | MINUTES | SECONDS

record IntervalSchedule = ModelMixin +
  every :: int
  period :: IntervalPeriod

datatype SolarEvent =
    SUNRISE
  | SUNSET
  | DAWN_ASTRONOMICAL
  | DAWN_CIVIL
  | DAWN_NAUTICAL
  | DUSK_ASTRONOMICAL
  | DUSK_CIVIL
  | DUSK_NAUTICAL
  | SOLAR_NOON

record SolarSchedule = ModelMixin +
  event :: SolarEvent
  latitude :: pyfloat
  longitude :: pyfloat

record ClockedSchedule = ModelMixin +
  clocked_time :: pydatetime

record CrontabSchedule = ModelMixin +
  minute :: string
  hour :: string
  day_of_week :: string
  day_of_month :: string
  month_of_year :: string

subsection \<open>SolarSchedule: the validators of latitude and longitude\<close>

definition validate_latitude :: "pyfloat \<Rightarrow> error + pyfloat" where
  "validate_latitude v =
     (if float_lt v (Finite (- 90)) \<or> float_gt v (Finite 90)
      then Inl (ValueError ''latitude must be between -90 and 90'')
      else Inr v)"

definition validate_longitude :: "pyfloat \<Rightarrow> error + pyfloat" where
  "validate_longitude v =
     (if float_lt v (Finite (- 180)) \<or> float_gt v (Finite 180)
      then Inl (ValueError ''longitude must be between -180 and 180'')
      else Inr v)"

text \<open>
  The constructor of the solar schedule of celery, \<^verbatim>\<open>schedules.solar(event, lat, lon,
  nowfun=...)\<close>. It keeps its arguments and then checks them: \<^verbatim>\<open>event\<close> must be one of
  the nine event names, which are strings, and the position must be in range; otherwise
  it raises \<^verbatim>\<open>ValueError\<close>. The schedule reads the time through \<^verbatim>\<open>nowfun\<close> whenever
  it computes whether it is due. The argument \<^verbatim>\<open>event\<close> is a string or, as
  \<^verbatim>\<open>SolarSchedule.schedule\<close> passes it, a member of the enumeration \<^verbatim>\<open>SolarEvent\<close>;
  a member of a plain \<^verbatim>\<open>Enum\<close> is equal to no string.
\<close>

datatype event_arg = Event_name string | Event_member SolarEvent

record solar =
  solar_event :: string
  solar_lat :: pyfloat
  solar_lon :: pyfloat
  solar_nowfun :: "int \<Rightarrow> error + pydatetime"

definition solar_all_events :: "string list" where
  "solar_all_events =
     [''dawn_astronomical'', ''dawn_nautical'', ''dawn_civil'', ''sunrise'', ''solar_noon'',
      ''sunset'', ''dusk_civil'', ''dusk_nautical'', ''dusk_astronomical'']"

definition solar_init ::
  "event_arg \<Rightarrow> pyfloat \<Rightarrow> pyfloat \<Rightarrow> (int \<Rightarrow> error + pydatetime) \<Rightarrow> error + solar" where
  "solar_init ev lat lon nf =
     (case ev of
        Event_member m \<Rightarrow> Inl (ValueError ''Solar event must be one of the event names'')
      | Event_name n \<Rightarrow>
          (if n \<notin> set solar_all_events
           then Inl (ValueError ''Solar event must be one of the event names'')
           else if float_lt lat (Finite (- 90)) \<or> float_gt lat (Finite 90)
           then Inl (ValueError ''Argument latitude is invalid, must be between -90 and 90.'')
           else if float_lt lon (Finite (- 180)) \<or> float_gt lon (Finite 180)
           then Inl (ValueError ''Argument longitude is invalid, must be between -180 and 180.'')
           else Inr \<lparr>solar_event = n, solar_lat = lat, solar_lon = lon, solar_nowfun = nf\<rparr>))"

text \<open>
  \<^verbatim>\<open>SolarSchedule.schedule\<close> calls that constructor with \<^verbatim>\<open>self.event\<close>, the
  position and the now-function \<^verbatim>\<open>lambda: make_aware(nowfun())\<close>, whose input is the
  reading of the system clock.
\<close>

definition SolarSchedule_nowfun :: "int \<Rightarrow> error + pydatetime" where
  "SolarSchedule_nowfun clock = make_aware (nowfun clock)"

definition SolarSchedule_schedule :: "SolarSchedule \<Rightarrow> error + solar" where
  "SolarSchedule_schedule self =
     solar_init (Event_member (event self)) (latitude self) (longitude self)
       SolarSchedule_nowfun"

subsection \<open>CrontabSchedule: the declared widths of the fields\<close>

text \<open>
  \<^verbatim>\<open>Field(max_length=...)\<close> of each column, as declared, in the order of the class.
\<close>

definition minute_max_length :: nat where
  "minute_max_length = 60 * 4"

definition hour_max_length :: nat where
  "hour_max_length = 24 * 4"

definition day_of_week_max_length :: nat where
  "day_of_week_max_length = 64"

definition day_of_month_max_length :: nat where
  "day_of_month_max_length = 31 * 4"

definition month_of_year_max_length :: nat where
  "month_of_year_max_length = 64"

text \<open>The constraint \<^verbatim>\<open>max_length\<close> on a string field: longer values are refused.\<close>

definition max_length_ok :: "nat \<Rightarrow> string \<Rightarrow> bool" where
  "max_length_ok n s = (length s \<le> n)"

definition CrontabSchedule_widths_ok :: "CrontabSchedule \<Rightarrow> bool" where
  "CrontabSchedule_widths_ok c =
     (max_length_ok minute_max_length (minute c)
      \<and> max_length_ok hour_max_length (hour c)
      \<and> max_length_ok day_of_week_max_length (day_of_week c)
      \<and> max_length_ok day_of_month_max_length (day_of_month c)
      \<and> max_length_ok month_of_year_max_length (month_of_year c))"

text \<open>
  The expanded form the comment above the fields speaks of: the text of a Python list of
  numbers, \<^verbatim>\<open>[1, 2, ..., 31]\<close>.
\<close>

definition digit_char :: "nat \<Rightarrow> char" where
  "digit_char d = char_of (48 + d)"

fun str_nat_fuel :: "nat \<Rightarrow> nat \<Rightarrow> string" where
  "str_nat_fuel 0 n = [digit_char (n mod 10)]"
| "str_nat_fuel (Suc k) n =
     (if n < 10 then [digit_char n] else str_nat_fuel k (n div 10) @ [digit_char (n mod 10)])"

definition str_nat :: "nat \<Rightarrow> string" where
  "str_nat n = str_nat_fuel n n"

fun join_comma :: "string list \<Rightarrow> string" where
  "join_comma [] = []"
| "join_comma [x] = x"
| "join_comma (x # y # ys) = x @ '', '' @ join_comma (y # ys)"

definition str_list :: "nat list \<Rightarrow> string" where
  "str_list xs = ''['' @ join_comma (map str_nat xs) @ '']''"

text \<open>Every value of each field, listed: the worst case of the expanded form.\<close>

definition all_minutes :: "nat list" where
  "all_minutes = [0..<60]"

definition all_hours :: "nat list" where
  "all_hours = [0..<24]"

definition all_days_of_month :: "nat list" where
  "all_days_of_month = [1..<32]"

definition all_days_of_week :: "nat list" where
  "all_days_of_week = [0..<7]"

definition all_months :: "nat list" where
  "all_months = [1..<13]"

section \<open>models.py: the change tracker and the periodic task\<close>

record PeriodicTasksChanged = ModelMixin +
  ident :: int
  last_update :: pydatetime

record PeriodicTask = ModelMixin +
  name :: string
  task :: string
  interval_id :: "int option"
  interval :: "IntervalSchedule option"
  crontab_id :: "int option"
  cron :: "CrontabSchedule option"
  solar_id :: "int option"
  solar :: "SolarSchedule option"
  clocked_id :: "int option"
  clocked :: "ClockedSchedule option"
  args :: "json list"
  kwargs :: "(string \<times> json) list"
  queue :: "string option"
  exchange :: "string option"
  routing_key :: "string option"
  headers :: "(string \<times> json) list option"
  priority :: "int option"
  expires :: "pydatetime option"
  expire_seconds :: "int option"
  one_off :: bool
  start_time :: "pydatetime option"
  enabled :: bool
  last_run_at :: "pydatetime option"
  total_run_count :: int
  date_changed :: pydatetime
  description :: "string option"
  no_changes :: bool

subsection \<open>Values of attributes and of dictionary entries\<close>

datatype pyval =
    PyNone
  | PyBool bool
  | PyInt int
  | PyStr string
  | PyDatetime pydatetime
  | PyJson json
  | PyInterval IntervalSchedule
  | PyCrontab CrontabSchedule
  | PySolar SolarSchedule
  | PyClocked ClockedSchedule

text \<open>
  The truth value of an object in a condition. None of the model classes defines
  \<^verbatim>\<open>__bool__\<close> or \<^verbatim>\<open>__len__\<close>, so a model object is true.
\<close>

fun json_truthy :: "json \<Rightarrow> bool" where
  "json_truthy JNull = False"
| "json_truthy (JBool b) = b"
| "json_truthy (JInt i) = (i \<noteq> 0)"
| "json_truthy (JStr s) = (s \<noteq> [])"
| "json_truthy (JList xs) = (xs \<noteq> [])"
| "json_truthy (JDict kvs) = (kvs \<noteq> [])"

fun truthy :: "pyval \<Rightarrow> bool" where
  "truthy PyNone = False"
| "truthy (PyBool b) = b"
| "truthy (PyInt i) = (i \<noteq> 0)"
| "truthy (PyStr s) = (s \<noteq> [])"
| "truthy (PyJson j) = json_truthy j"
| "truthy _ = True"

fun of_option :: "('a \<Rightarrow> pyval) \<Rightarrow> 'a option \<Rightarrow> pyval" where
  "of_option f None = PyNone"
| "of_option f (Some x) = f x"

text \<open>
  A dictionary with string keys, in insertion order. \<^verbatim>\<open>d.get(k)\<close> gives
  \<^verbatim>\<open>None\<close> for a missing key; \<^verbatim>\<open>d[k]\<close> raises \<^verbatim>\<open>KeyError\<close>.
\<close>

type_synonym pydict = "(string \<times> pyval) list"

definition dict_get :: "pydict \<Rightarrow> string \<Rightarrow> pyval" where
  "dict_get d k = (case map_of d k of None \<Rightarrow> PyNone | Some v \<Rightarrow> v)"

definition dict_getitem :: "pydict \<Rightarrow> string \<Rightarrow> error + pyval" where
  "dict_getitem d k = (case map_of d k of None \<Rightarrow> Inl (KeyError k) | Some v \<Rightarrow> Inr v)"

text \<open>
  The data attributes of a \<^verbatim>\<open>PeriodicTask\<close> object, under the names the class and
  \<^verbatim>\<open>ModelMixin\<close> declare them, and the lookup \<^verbatim>\<open>self.a\<close> of a data attribute:
  a name that the object does not have raises \<^verbatim>\<open>AttributeError\<close>.
\<close>

definition PeriodicTask_dict :: "PeriodicTask \<Rightarrow> pydict" where
  "PeriodicTask_dict self =
     [(''id'', of_option PyInt (id' self)),
      (''created_at'', PyDatetime (created_at self)),
      (''updated_at'', PyDatetime (updated_at self)),
      (''name'', PyStr (name self)),
      (''task'', PyStr (task self)),
      (''interval_id'', of_option PyInt (interval_id self)),
      (''interval'', of_option PyInterval (interval self)),
      (''crontab_id'', of_option PyInt (crontab_id self)),
      (''cron'', of_option PyCrontab (cron self)),
      (''solar_id'', of_option PyInt (solar_id self)),
      (''solar'', of_option PySolar (solar self)),
      (''clocked_id'', of_option PyInt (clocked_id self)),
      (''clocked'', of_option PyClocked (clocked self)),
      (''args'', PyJson (JList (args self))),
      (''kwargs'', PyJson (JDict (kwargs self))),
      (''queue'', of_option PyStr (queue self)),
      (''exchange'', of_option PyStr (exchange self)),
      (''routing_key'', of_option PyStr (routing_key self)),
      (''headers'', of_option (\<lambda>h. PyJson (JDict h)) (headers self)),
      (''priority'', of_option PyInt (priority self)),
      (''expires'', of_option PyDatetime (expires self)),
      (''expire_seconds'', of_option PyInt (expire_seconds self)),
      (''one_off'', PyBool (one_off self)),
      (''start_time'', of_option PyDatetime (start_time self)),
      (''enabled'', PyBool (enabled self)),
      (''last_run_at'', of_option PyDatetime (last_run_at self)),
      (''total_run_count'', PyInt (total_run_count self)),
      (''date_changed'', PyDatetime (date_changed self)),
      (''description'', of_option PyStr (description self)),
      (''no_changes'', PyBool (no_changes self))]"

definition getattr :: "PeriodicTask \<Rightarrow> string \<Rightarrow> error + pyval" where
  "getattr self a =
     (case map_of (PeriodicTask_dict self) a of
        None \<Rightarrow> Inl (AttributeError a)
      | Some v \<Rightarrow> Inr v)"

subsection \<open>PeriodicTask.validate_unique\<close>

text \<open>
  The dictionary \<^verbatim>\<open>values\<close> that the root validator is given for a task: the values
  of the fields of the class and of \<^verbatim>\<open>ModelMixin\<close>, under their names. The attributes
  \<^verbatim>\<open>interval\<close>, \<^verbatim>\<open>cron\<close>, \<^verbatim>\<open>solar\<close> and \<^verbatim>\<open>clocked\<close> are declared with
  \<^verbatim>\<open>Relationship(...)\<close>; they are not fields and are not in the dictionary.
\<close>

definition PeriodicTask_values :: "PeriodicTask \<Rightarrow> pydict" where
  "PeriodicTask_values self =
     [(''id'', of_option PyInt (id' self)),
      (''created_at'', PyDatetime (created_at self)),
      (''updated_at'', PyDatetime (updated_at self)),
      (''name'', PyStr (name self)),
      (''task'', PyStr (task self)),
      (''interval_id'', of_option PyInt (interval_id self)),
      (''crontab_id'', of_option PyInt (crontab_id self)),
      (''solar_id'', of_option PyInt (solar_id self)),
      (''clocked_id'', of_option PyInt (clocked_id self)),
      (''args'', PyJson (JList (args self))),
      (''kwargs'', PyJson (JDict (kwargs self))),
      (''queue'', of_option PyStr (queue self)),
      (''exchange'', of_option PyStr (exchange self)),
      (''routing_key'', of_option PyStr (routing_key self)),
      (''headers'', of_option (\<lambda>h. PyJson (JDict h)) (headers self)),
      (''priority'', of_option PyInt (priority self)),
      (''expires'', of_option PyDatetime (expires self)),
      (''expire_seconds'', of_option PyInt (expire_seconds self)),
      (''one_off'', PyBool (one_off self)),
      (''start_time'', of_option PyDatetime (start_time self)),
      (''enabled'', PyBool (enabled self)),
      (''last_run_at'', of_option PyDatetime (last_run_at self)),
      (''total_run_count'', PyInt (total_run_count self)),
      (''date_changed'', PyDatetime (date_changed self)),
      (''description'', of_option PyStr (description self)),
      (''no_changes'', PyBool (no_changes self))]"

text \<open>
  The root validator, on the dictionary \<^verbatim>\<open>values\<close> it is given. Each of its four
  \<^verbatim>\<open>raise ValidationError(...)\<close> calls the constructor with one argument. It ends
  without a \<^verbatim>\<open>return\<close>, so a run that raises nothing gives \<^verbatim>\<open>None\<close>.
\<close>

definition schedule_types :: "string list" where
  "schedule_types = [''interval'', ''crontab'', ''solar'', ''clocked'']"

definition selected_schedule_types :: "pydict \<Rightarrow> string list" where
  "selected_schedule_types values = [s \<leftarrow> schedule_types. dict_get values s \<noteq> PyNone]"

definition err_msg :: string where
  "err_msg = ''Only one of clocked, interval, crontab, or solar must be set''"

definition validate_unique :: "pydict \<Rightarrow> error + pyval" where
  "validate_unique values =
     (if length (selected_schedule_types values) = 0 then
        Inl (raise_ValidationError
               [Arg_errors (Message ''One of clocked, interval, crontab, or solar must be set.'')])
      else if length (selected_schedule_types values) > 1 then
        Inl (raise_ValidationError
               [Arg_errors
                  (Fields (map (\<lambda>s. (s, [err_msg])) (selected_schedule_types values)))])
      else
        (case dict_getitem values ''clocked'' of
           Inl e \<Rightarrow> Inl e
         | Inr c \<Rightarrow>
             (case (if truthy c
                    then (case dict_getitem values ''one_off'' of
                            Inl e \<Rightarrow> Inl e
                          | Inr b \<Rightarrow> Inr (\<not> truthy b))
                    else Inr False) of
                Inl e \<Rightarrow> Inl e
              | Inr True \<Rightarrow>
                  Inl (raise_ValidationError
                         [Arg_errors (Message ''clocked must be one off, one_off must set True'')])
              | Inr False \<Rightarrow>
                  (case dict_getitem values ''expires_seconds'' of
                     Inl e \<Rightarrow> Inl e
                   | Inr es \<Rightarrow>
                       (if es \<noteq> PyNone then
                          (case dict_getitem values ''expires'' of
                             Inl e \<Rightarrow> Inl e
                           | Inr ex \<Rightarrow>
                               (if ex \<noteq> PyNone then
                                  Inl (raise_ValidationError
                                         [Arg_errors
                                            (Message
                                               ''Only one can be set, in expires and expire_seconds'')])
                                else Inr PyNone))
                        else Inr PyNone)))))"

subsection \<open>The session\<close>

text \<open>
  The database session is a collaborator from outside this repository. Its model keeps
  what the code can observe: the writes registered by \<^verbatim>\<open>add\<close> and \<^verbatim>\<open>delete\<close>, which
  \<^verbatim>\<open>commit\<close> flushes in order, the rows of the table of \<^verbatim>\<open>PeriodicTasksChanged\<close>,
  and the error the database answers with, if any. \<^verbatim>\<open>Session.get\<close> takes the identity
  of a row, one value for each column of the primary key, and gives the row that has it,
  or \<^verbatim>\<open>None\<close> where the table has no such row; an identity with another number of
  values raises \<^verbatim>\<open>InvalidRequestError\<close>. The primary key of \<^verbatim>\<open>PeriodicTasksChanged\<close>
  has two columns: \<^verbatim>\<open>id\<close>, declared in \<^verbatim>\<open>ModelMixin\<close>, and \<^verbatim>\<open>ident\<close>.
\<close>

datatype db_write = Put PeriodicTask | Remove PeriodicTask

record Session =
  pending :: "db_write list"
  flushed :: "db_write list"
  periodictaskschanged :: "PeriodicTasksChanged list"
  db_fault :: "error option"

definition session_add :: "Session \<Rightarrow> PeriodicTask \<Rightarrow> Session" where
  "session_add s obj = s\<lparr>pending := pending s @ [Put obj]\<rparr>"

definition session_delete :: "Session \<Rightarrow> PeriodicTask \<Rightarrow> Session" where
  "session_delete s obj = s\<lparr>pending := pending s @ [Remove obj]\<rparr>"

definition session_commit :: "Session \<Rightarrow> error + Session" where
  "session_commit s =
     (case db_fault s of
        Some e \<Rightarrow> Inl e
      | None \<Rightarrow> Inr (s\<lparr>flushed := flushed s @ pending s, pending := []\<rparr>))"

definition PeriodicTasksChanged_primary_key :: "string list" where
  "PeriodicTasksChanged_primary_key = [''id'', ''ident'']"

definition session_get_changed ::
  "Session \<Rightarrow> int list \<Rightarrow> error + PeriodicTasksChanged option" where
  "session_get_changed s identity =
     (case db_fault s of
        Some e \<Rightarrow> Inl e
      | None \<Rightarrow>
          (if length identity \<noteq> length PeriodicTasksChanged_primary_key
           then Inl (InvalidRequestError
                       ''Incorrect number of values in identifier to formulate primary key'')
           else Inr (find (\<lambda>r. [id' r, Some (ident r)] = map Some identity)
                       (periodictaskschanged s))))"

subsection \<open>PeriodicTasksChanged\<close>

text \<open>
  The positional arguments of a call are a list of objects. A class method binds them to
  its parameters after \<^verbatim>\<open>cls\<close>; a call that leaves a parameter without a value, or
  gives too many, raises \<^verbatim>\<open>TypeError\<close> before the body runs.
\<close>

datatype pyobj = Obj_Session Session | Obj_PeriodicTask PeriodicTask

fun obj_no_changes :: "pyobj \<Rightarrow> error + bool" where
  "obj_no_changes (Obj_PeriodicTask t) = Inr (no_changes t)"
| "obj_no_changes (Obj_Session s) = Inl (AttributeError ''no_changes'')"

text \<open>
  The attributes of the class \<^verbatim>\<open>PeriodicTasksChanged\<close>: its fields and class methods,
  and those of \<^verbatim>\<open>ModelMixin\<close>. None of them is a manager \<^verbatim>\<open>objects\<close>, and none has
  a method \<^verbatim>\<open>update_or_create\<close>.
\<close>

definition PeriodicTasksChanged_attributes :: "string list" where
  "PeriodicTasksChanged_attributes =
     [''id'', ''created_at'', ''updated_at'', ''create'', ''update'', ''save'',
      ''ident'', ''last_update'', ''changed'', ''update_changed'', ''last_change'']"

definition update_changed :: "pyobj list \<Rightarrow> error + unit" where
  "update_changed call_args =
     (case call_args of
        [] \<Rightarrow> Inl (TypeError ''update_changed() missing 1 required positional argument: session'')
      | [session] \<Rightarrow>
          (if ''objects'' \<in> set PeriodicTasksChanged_attributes
           then Inl (AttributeError ''update_or_create'')
           else Inl (AttributeError ''objects''))
      | _ \<Rightarrow> Inl (TypeError ''update_changed() takes 2 positional arguments but more were given''))"

definition changed :: "pyobj list \<Rightarrow> error + unit" where
  "changed call_args =
     (case call_args of
        [] \<Rightarrow> Inl (TypeError ''changed() missing 2 required positional arguments: session and instance'')
      | [session] \<Rightarrow> Inl (TypeError ''changed() missing 1 required positional argument: instance'')
      | [session, instance] \<Rightarrow>
          (case obj_no_changes instance of
             Inl e \<Rightarrow> Inl e
           | Inr nc \<Rightarrow> (if \<not> nc then update_changed [] else Inr ()))
      | _ \<Rightarrow> Inl (TypeError ''changed() takes 3 positional arguments but more were given''))"

text \<open>
  \<^verbatim>\<open>last_change\<close> calls \<^verbatim>\<open>session.get(cls, ident=1)\<close>, an identity of the one value
  1, and reads \<^verbatim>\<open>last_update\<close> from what the call returned, inside a \<^verbatim>\<open>try\<close> whose
  handler catches \<^verbatim>\<open>NoResultFound\<close> alone and then lets the function end, which gives
  \<^verbatim>\<open>None\<close>. \<open>last_change_of\<close> is the body, on the outcome of the call.
\<close>

definition last_change_of ::
  "error + PeriodicTasksChanged option \<Rightarrow> error + pydatetime option" where
  "last_change_of got =
     (case got of
        Inl e \<Rightarrow> (if e = NoResultFound then Inr None else Inl e)
      | Inr None \<Rightarrow> Inl (AttributeError ''last_update'')
      | Inr (Some row) \<Rightarrow> Inr (Some (last_update row)))"

definition last_change :: "Session \<Rightarrow> error + pydatetime option" where
  "last_change session = last_change_of (session_get_changed session [1])"

subsection \<open>PeriodicTask: save, delete, scheduler, schedule\<close>

text \<open>
  \<^verbatim>\<open>save\<close> and \<^verbatim>\<open>delete\<close> give back the object and the session as the call leaves
  them, and the outcome: \<open>Inr ()\<close> for a normal return, \<open>Inl e\<close> for the exception that
  ends the call. Both call \<^verbatim>\<open>PeriodicTasksChanged.changed(self)\<close>, with the one
  positional argument \<^verbatim>\<open>self\<close>.
\<close>

definition save :: "PeriodicTask \<Rightarrow> Session \<Rightarrow> PeriodicTask \<times> Session \<times> (error + unit)" where
  "save self session =
     (let self1 = (if \<not> enabled self then self\<lparr>last_run_at := None\<rparr> else self);
          s1 = session_add session self1
      in case session_commit s1 of
           Inl e \<Rightarrow> (self1, s1, Inl e)
         | Inr s2 \<Rightarrow> (self1, s2, changed [Obj_PeriodicTask self1]))"

definition delete :: "PeriodicTask \<Rightarrow> Session \<Rightarrow> PeriodicTask \<times> Session \<times> (error + unit)" where
  "delete self session =
     (let s1 = session_delete session self
      in (self, s1, changed [Obj_PeriodicTask self]))"

text \<open>
  The property \<^verbatim>\<open>scheduler\<close> probes \<^verbatim>\<open>self.interval\<close>, \<^verbatim>\<open>self.crontab\<close>,
  \<^verbatim>\<open>self.solar\<close> and \<^verbatim>\<open>self.clocked\<close> in this order and returns the first that is
  true; when none is, the function ends and gives \<^verbatim>\<open>None\<close>.
\<close>

definition probe :: "PeriodicTask \<Rightarrow> string \<Rightarrow> (error + pyval) \<Rightarrow> error + pyval" where
  "probe self a rest =
     (case getattr self a of
        Inl e \<Rightarrow> Inl e
      | Inr v \<Rightarrow> (if truthy v then getattr self a else rest))"

definition scheduler :: "PeriodicTask \<Rightarrow> error + pyval" where
  "scheduler self =
     probe self ''interval''
       (probe self ''crontab''
          (probe self ''solar''
             (probe self ''clocked'' (Inr PyNone))))"

text \<open>
  The property \<^verbatim>\<open>schedule\<close> is \<^verbatim>\<open>self.scheduler.schedule\<close>: it evaluates
  \<^verbatim>\<open>scheduler\<close> and reads the attribute \<^verbatim>\<open>schedule\<close> of the result. That read is
  the argument \<open>read_schedule\<close>: the four schedule models build their schedules with
  constructors that \<^verbatim>\<open>models.py\<close> imports.
\<close>

definition schedule :: "(pyval \<Rightarrow> error + 'a) \<Rightarrow> PeriodicTask \<Rightarrow> error + 'a" where
  "schedule read_schedule self =
     (case scheduler self of
        Inl e \<Rightarrow> Inl e
      | Inr s \<Rightarrow> read_schedule s)"

section \<open>Example objects\<close>

definition base0 :: ModelMixin where
  "base0 = \<lparr>id' = None, created_at = nowfun 0, updated_at = nowfun 0\<rparr>"

definition interval_30s :: IntervalSchedule where
  "interval_30s = ModelMixin.extend base0 (IntervalSchedule.fields 30 SECONDS)"

definition crontab_hourly :: CrontabSchedule where
  "crontab_hourly =
     ModelMixin.extend base0 (CrontabSchedule.fields ''0'' ''*'' ''*'' ''10-15'' ''*'')"

definition solar_nyc :: SolarSchedule where
  "solar_nyc =
     ModelMixin.extend base0
       (SolarSchedule.fields SUNRISE (Finite (40.7128)) (Finite (- 74.0060)))"

text \<open>A crontab schedule with every field in its longest expanded form.\<close>

definition crontab_expanded :: CrontabSchedule where
  "crontab_expanded =
     ModelMixin.extend base0
       (CrontabSchedule.fields (str_list all_minutes) (str_list all_hours)
          (str_list all_days_of_week) (str_list all_days_of_month) (str_list all_months))"

definition clocked_once :: ClockedSchedule where
  "clocked_once = ModelMixin.extend base0 (ClockedSchedule.fields (nowfun 1000))"

text \<open>A task with no schedule reference, enabled, that ran at time 3.\<close>

definition task0 :: PeriodicTask where
  "task0 =
     ModelMixin.extend base0
       (PeriodicTask.fields ''report'' ''tasks.report''
          None None None None None None None None
          [] [] None None None None None None None
          False None True (Some (nowfun 3)) 0 (nowfun 0) None False)"

text \<open>A session on an empty database, and one whose tracker row was written at time 5.\<close>

definition session0 :: Session where
  "session0 = \<lparr>pending = [], flushed = [], periodictaskschanged = [], db_fault = None\<rparr>"

definition tracker_row :: PeriodicTasksChanged where
  "tracker_row = ModelMixin.extend base0 (PeriodicTasksChanged.fields 1 (nowfun 5))"

definition session_tracked :: Session where
  "session_tracked = session0\<lparr>periodictaskschanged := [tracker_row]\<rparr>"

text \<open>Tasks built from \<open>task0\<close>: one schedule, two schedules, a clocked one, expiries.\<close>

definition task_interval :: PeriodicTask where
  "task_interval = task0\<lparr>interval := Some interval_30s\<rparr>"

definition task_interval_cron :: PeriodicTask where
  "task_interval_cron = task_interval\<lparr>cron := Some crontab_hourly\<rparr>"

definition task_interval_solar :: PeriodicTask where
  "task_interval_solar = task_interval\<lparr>solar := Some solar_nyc\<rparr>"

definition task_clocked :: PeriodicTask where
  "task_clocked = task0\<lparr>clocked := Some clocked_once\<rparr>"

definition task_clocked_one_off :: PeriodicTask where
  "task_clocked_one_off = task_clocked\<lparr>one_off := True\<rparr>"

definition task_disabled :: PeriodicTask where
  "task_disabled = task_interval\<lparr>enabled := False\<rparr>"

definition task_expires_only :: PeriodicTask where
  "task_expires_only = task_interval\<lparr>expires := Some (nowfun 2000)\<rparr>"

definition task_both_expiries :: PeriodicTask where
  "task_both_expiries = task_expires_only\<lparr>expire_seconds := Some 60\<rparr>"

lemmas example_defs =
  task_interval_def task_interval_cron_def task_interval_solar_def task_clocked_def task_clocked_one_off_def
  task_disabled_def task_expires_only_def task_both_expiries_def task0_def base0_def
  interval_30s_def crontab_hourly_def solar_nyc_def clocked_once_def
  ModelMixin.defs PeriodicTask.defs IntervalSchedule.defs SolarSchedule.defs
  ClockedSchedule.defs CrontabSchedule.defs

lemmas dict_defs = PeriodicTask_dict_def PeriodicTask_values_def dict_get_def dict_getitem_def

section \<open>What the validator raises\<close>

lemma selected_schedule_types_eq:
  "selected_schedule_types values =
     [s \<leftarrow> [''interval'', ''crontab'', ''solar'', ''clocked'']. dict_get values s \<noteq> PyNone]"
  by (simp add: selected_schedule_types_def schedule_types_def)

lemma raise_one_argument: "raise_ValidationError [x] = TypeError missing_model"
  by (simp add: raise_ValidationError_def)

lemma dict_getitem_Inl: "dict_getitem d k = Inl e \<Longrightarrow> e = KeyError k"
  by (simp add: dict_getitem_def split: option.splits)

text \<open>
  The branches of the schedule rule, on any dictionary: the statement that is reached,
  and the \<^verbatim>\<open>TypeError\<close> that executing it raises.
\<close>

lemma validate_unique_none_selected:
  "selected_schedule_types values = [] \<Longrightarrow>
     validate_unique values =
       Inl (raise_ValidationError
              [Arg_errors (Message ''One of clocked, interval, crontab, or solar must be set.'')])
     \<and> validate_unique values = Inl (TypeError missing_model)"
  unfolding validate_unique_def by (simp add: raise_one_argument)

lemma validate_unique_many_selected:
  assumes "2 \<le> length (selected_schedule_types values)"
  shows "validate_unique values =
           Inl (raise_ValidationError
                  [Arg_errors
                     (Fields (map (\<lambda>s. (s, [err_msg])) (selected_schedule_types values)))])
         \<and> validate_unique values = Inl (TypeError missing_model)"
proof -
  from assms have "selected_schedule_types values \<noteq> []"
    and "1 < length (selected_schedule_types values)"
    by auto
  then show ?thesis
    unfolding validate_unique_def by (simp add: raise_one_argument)
qed

text \<open>No run of the validator ends with a \<^verbatim>\<open>ValidationError\<close>.\<close>

lemma validate_unique_never_ValidationError:
  "validate_unique values \<noteq> Inl (ValidationError v)"
  unfolding validate_unique_def
  by (auto simp: raise_one_argument split: sum.splits bool.splits if_splits
      dest: dict_getitem_Inl)

text \<open>
  On the values of a task the four lookups find nothing, whatever schedules the task
  holds, and the validator takes the branch for no schedule.
\<close>

lemma selected_PeriodicTask_values: "selected_schedule_types (PeriodicTask_values t) = []"
  by (simp add: selected_schedule_types_eq PeriodicTask_values_def dict_get_def)

lemma validate_unique_PeriodicTask_values:
  "validate_unique (PeriodicTask_values t) = Inl (TypeError missing_model)"
  by (rule validate_unique_none_selected [OF selected_PeriodicTask_values, THEN conjunct2])

section \<open>The exactly-one-schedule rule\<close>

lemma selected_dict_interval_solar:
  "selected_schedule_types (PeriodicTask_dict task_interval_solar) = [''interval'', ''solar'']"
  by (simp add: selected_schedule_types_eq dict_defs example_defs)

text \<open>
  C1, at a task with two schedules (\<^verbatim>\<open>interval\<close> and \<^verbatim>\<open>cron\<close>, or \<^verbatim>\<open>interval\<close>
  and \<^verbatim>\<open>solar\<close>) and at a task with none: on the values of each the validator ends
  with the same \<^verbatim>\<open>TypeError\<close>, raised by the call of the constructor in the branch for
  no schedule. It raises no multiplicity error and names no field. On a dictionary that
  does carry the attributes of the task under their names, \<^verbatim>\<open>interval\<close> and
  \<^verbatim>\<open>solar\<close> reach the multiplicity branch, which ends with the \<^verbatim>\<open>TypeError\<close> too,
  and \<^verbatim>\<open>interval\<close> and \<^verbatim>\<open>cron\<close> pass the rule, because it looks for \<^verbatim>\<open>crontab\<close>.
\<close>

theorem validate_unique_schedule_rule_TypeError:
  "validate_unique (PeriodicTask_values task_interval_cron) = Inl (TypeError missing_model)
   \<and> validate_unique (PeriodicTask_values task_interval_solar) = Inl (TypeError missing_model)
   \<and> validate_unique (PeriodicTask_values task0) = Inl (TypeError missing_model)
   \<and> validate_unique (PeriodicTask_dict task_interval_solar) = Inl (TypeError missing_model)
   \<and> validate_unique (PeriodicTask_dict task_interval_cron) =
        Inl (KeyError ''expires_seconds'')"
proof (intro conjI)
  show "validate_unique (PeriodicTask_values task_interval_cron) = Inl (TypeError missing_model)"
    by (rule validate_unique_PeriodicTask_values)
  show "validate_unique (PeriodicTask_values task_interval_solar) = Inl (TypeError missing_model)"
    by (rule validate_unique_PeriodicTask_values)
  show "validate_unique (PeriodicTask_values task0) = Inl (TypeError missing_model)"
    by (rule validate_unique_PeriodicTask_values)
  have "2 \<le> length (selected_schedule_types (PeriodicTask_dict task_interval_solar))"
    by (simp add: selected_dict_interval_solar)
  then show "validate_unique (PeriodicTask_dict task_interval_solar) =
      Inl (TypeError missing_model)"
    by (rule validate_unique_many_selected [THEN conjunct2])
  show "validate_unique (PeriodicTask_dict task_interval_cron) =
      Inl (KeyError ''expires_seconds'')"
    by (simp add: validate_unique_def selected_schedule_types_def schedule_types_def
        dict_defs example_defs)
qed

section \<open>A clocked task must be one-off\<close>

text \<open>
  With one schedule selected, a clocked object under \<^verbatim>\<open>clocked\<close> and a Boolean under
  \<^verbatim>\<open>one_off\<close>, the validator reaches the raise of the clocked rule when \<^verbatim>\<open>one_off\<close> is
  false, which ends with the \<^verbatim>\<open>TypeError\<close>, and goes on to the expiry check when it
  is true.
\<close>

lemma validate_unique_single_clocked:
  assumes "length (selected_schedule_types values) = 1"
    and "map_of values ''clocked'' = Some (PyClocked c)"
    and "map_of values ''one_off'' = Some (PyBool b)"
  shows "validate_unique values =
     (if \<not> b then
        Inl (raise_ValidationError
               [Arg_errors (Message ''clocked must be one off, one_off must set True'')])
      else
        (case dict_getitem values ''expires_seconds'' of
           Inl e \<Rightarrow> Inl e
         | Inr es \<Rightarrow>
             (if es \<noteq> PyNone then
                (case dict_getitem values ''expires'' of
                   Inl e \<Rightarrow> Inl e
                 | Inr ex \<Rightarrow>
                     (if ex \<noteq> PyNone then
                        Inl (raise_ValidationError
                               [Arg_errors
                                  (Message
                                     ''Only one can be set, in expires and expire_seconds'')])
                      else Inr PyNone))
              else Inr PyNone)))"
  using assms unfolding validate_unique_def
  by (simp add: dict_getitem_def)

lemma entries_task_clocked:
  "map_of (PeriodicTask_dict task_clocked) ''clocked'' = Some (PyClocked clocked_once)"
  "map_of (PeriodicTask_dict task_clocked) ''one_off'' = Some (PyBool False)"
  "length (selected_schedule_types (PeriodicTask_dict task_clocked)) = 1"
  "map_of (PeriodicTask_values task_clocked) ''clocked'' = None"
  by (simp_all add: selected_schedule_types_eq dict_defs example_defs)

text \<open>
  C4, at a task with a clocked schedule and \<^verbatim>\<open>one_off\<close> false, and at the same task
  with \<^verbatim>\<open>one_off\<close> true: on the values of either the validator ends with the
  \<^verbatim>\<open>TypeError\<close> of the branch for no schedule, the one as the other, and the clocked
  rule is not reached. On a dictionary that does carry \<^verbatim>\<open>clocked\<close>, the rule is
  reached: with \<^verbatim>\<open>one_off\<close> false its raise ends with the \<^verbatim>\<open>TypeError\<close>, with
  \<^verbatim>\<open>one_off\<close> true the run passes it and ends at the next check with \<^verbatim>\<open>KeyError\<close>.
\<close>

theorem validate_unique_clocked_rule_TypeError:
  "validate_unique (PeriodicTask_values task_clocked) = Inl (TypeError missing_model)
   \<and> validate_unique (PeriodicTask_values task_clocked_one_off) = Inl (TypeError missing_model)
   \<and> validate_unique (PeriodicTask_dict task_clocked) = Inl (TypeError missing_model)
   \<and> validate_unique (PeriodicTask_dict task_clocked_one_off) =
        Inl (KeyError ''expires_seconds'')"
proof (intro conjI)
  show "validate_unique (PeriodicTask_values task_clocked) = Inl (TypeError missing_model)"
    by (rule validate_unique_PeriodicTask_values)
  show "validate_unique (PeriodicTask_values task_clocked_one_off) =
      Inl (TypeError missing_model)"
    by (rule validate_unique_PeriodicTask_values)
  show "validate_unique (PeriodicTask_dict task_clocked) = Inl (TypeError missing_model)"
    using validate_unique_single_clocked [OF entries_task_clocked(3,1,2)]
    by (simp add: raise_one_argument)
  show "validate_unique (PeriodicTask_dict task_clocked_one_off) =
      Inl (KeyError ''expires_seconds'')"
    by (simp add: validate_unique_def selected_schedule_types_def schedule_types_def
        dict_defs example_defs)
qed

section \<open>The expiry rule\<close>

lemma entries_task_both_expiries:
  "map_of (PeriodicTask_dict task_both_expiries) ''expires'' = Some (PyDatetime (nowfun 2000))"
  "map_of (PeriodicTask_dict task_both_expiries) ''expire_seconds'' = Some (PyInt 60)"
  "map_of (PeriodicTask_dict task_both_expiries) ''expires_seconds'' = None"
  "map_of (PeriodicTask_dict task_expires_only) ''expires'' = Some (PyDatetime (nowfun 2000))"
  "map_of (PeriodicTask_dict task_expires_only) ''expire_seconds'' = Some PyNone"
  "map_of (PeriodicTask_values task_both_expiries) ''expire_seconds'' = Some (PyInt 60)"
  "map_of (PeriodicTask_values task_both_expiries) ''expires_seconds'' = None"
  by (simp_all add: dict_defs example_defs)

text \<open>
  C5, at a dictionary that carries, under their names, the attributes of a task with one
  schedule (\<^verbatim>\<open>interval\<close>), \<^verbatim>\<open>expires\<close> set and \<^verbatim>\<open>expire_seconds = 60\<close>, and at that
  of the same task with \<^verbatim>\<open>expires\<close> alone: in both the validator ends with
  \<^verbatim>\<open>KeyError\<close> for the key \<^verbatim>\<open>expires_seconds\<close>, which no field of the class is
  named. It raises no \<^verbatim>\<open>ValidationError\<close> in the first, and it does not accept the
  second.
\<close>

theorem validate_unique_expiry_key_error:
  "validate_unique (PeriodicTask_dict task_both_expiries) = Inl (KeyError ''expires_seconds'')
   \<and> validate_unique (PeriodicTask_dict task_expires_only) = Inl (KeyError ''expires_seconds'')"
  by (simp add: validate_unique_def selected_schedule_types_def schedule_types_def
      dict_defs example_defs)

text \<open>
  On the values of these tasks, which hold no schedule entry, the validator ends before
  the expiry rule, with the \<^verbatim>\<open>TypeError\<close> of the branch for no schedule.
\<close>

lemma validate_unique_values_both_expiries:
  "validate_unique (PeriodicTask_values task_both_expiries) = Inl (TypeError missing_model)"
  by (rule validate_unique_PeriodicTask_values)

section \<open>Saving and deleting\<close>

lemma save_object:
  "fst (save self session) = (if \<not> enabled self then self\<lparr>last_run_at := None\<rparr> else self)"
  by (simp add: save_def Let_def split: sum.splits)

lemma save_session:
  "db_fault session = None \<Longrightarrow>
     flushed (fst (snd (save self session))) =
       flushed session @ pending session @ [Put (fst (save self session))]
     \<and> pending (fst (snd (save self session))) = []"
  by (simp add: save_def Let_def session_commit_def session_add_def)

text \<open>
  C6. \<^verbatim>\<open>save\<close> on a task that is not enabled sets \<^verbatim>\<open>last_run_at\<close> to \<^verbatim>\<open>None\<close> and
  changes nothing else of the object; on an enabled task it leaves the object as it is.
  The object that reaches the database (the last write that the commit flushes) is the
  object in that state.
\<close>

theorem save_clears_last_run_at_when_disabled:
  assumes "save self session = (self', s', r)"
  shows "(\<not> enabled self \<longrightarrow> self' = self\<lparr>last_run_at := None\<rparr> \<and> last_run_at self' = None)
       \<and> (enabled self \<longrightarrow> self' = self \<and> last_run_at self' = last_run_at self)
       \<and> (db_fault session = None \<longrightarrow>
             flushed s' = flushed session @ pending session @ [Put self'] \<and> pending s' = [])"
proof -
  from assms have obj: "self' = fst (save self session)"
    and ses: "s' = fst (snd (save self session))"
    by simp_all
  from obj have "self' = (if \<not> enabled self then self\<lparr>last_run_at := None\<rparr> else self)"
    by (simp only: save_object)
  moreover have "db_fault session = None \<longrightarrow>
             flushed s' = flushed session @ pending session @ [Put self'] \<and> pending s' = []"
    unfolding obj ses by (rule impI) (rule save_session)
  ultimately show ?thesis by simp
qed

lemma example_flags:
  "\<not> enabled task_disabled" "last_run_at task_disabled = Some (nowfun 3)"
  "enabled task_interval" "last_run_at task_interval = Some (nowfun 3)"
  "db_fault session0 = None" "flushed session0 = []" "pending session0 = []"
  by (simp_all add: example_defs session0_def)

theorem save_clears_last_run_at_when_disabled_witness:
  "\<not> enabled task_disabled
   \<and> last_run_at task_disabled = Some (nowfun 3)
   \<and> last_run_at (fst (save task_disabled session0)) = None
   \<and> flushed (fst (snd (save task_disabled session0))) =
        [Put (task_disabled\<lparr>last_run_at := None\<rparr>)]
   \<and> enabled task_interval
   \<and> last_run_at (fst (save task_interval session0)) = Some (nowfun 3)"
proof -
  have "save task_disabled session0 =
      (fst (save task_disabled session0), fst (snd (save task_disabled session0)),
       snd (snd (save task_disabled session0)))"
    by simp
  from save_clears_last_run_at_when_disabled [OF this] example_flags(1,5,6,7)
  have a: "last_run_at (fst (save task_disabled session0)) = None"
    and b: "flushed (fst (snd (save task_disabled session0))) =
        [Put (task_disabled\<lparr>last_run_at := None\<rparr>)]"
    by simp_all
  have "save task_interval session0 =
      (fst (save task_interval session0), fst (snd (save task_interval session0)),
       snd (snd (save task_interval session0)))"
    by simp
  from save_clears_last_run_at_when_disabled [OF this] example_flags(3,4)
  have c: "last_run_at (fst (save task_interval session0)) = Some (nowfun 3)"
    by simp
  from example_flags(1,2) a b example_flags(3) c show ?thesis
    by (intro conjI)
qed

subsection \<open>The notification of the change tracker\<close>

lemma changed_one_argument:
  "changed [x] = Inl (TypeError ''changed() missing 1 required positional argument: instance'')"
  by (simp add: changed_def)

lemma update_changed_raises: "\<exists>e. update_changed xs = Inl e"
  by (simp add: update_changed_def split: list.splits)

text \<open>
  Once the commit went through, \<^verbatim>\<open>save\<close> ends with the \<^verbatim>\<open>TypeError\<close> of the call
  \<^verbatim>\<open>PeriodicTasksChanged.changed(self)\<close>; \<^verbatim>\<open>delete\<close> always does.
\<close>

lemma save_outcome:
  "db_fault session = None \<Longrightarrow>
     snd (snd (save self session)) =
       Inl (TypeError ''changed() missing 1 required positional argument: instance'')"
  by (simp add: save_def Let_def session_commit_def session_add_def changed_one_argument)

lemma delete_outcome:
  "snd (snd (delete self session)) =
     Inl (TypeError ''changed() missing 1 required positional argument: instance'')"
  by (simp add: delete_def Let_def changed_one_argument)

lemma save_raises: "\<exists>e. snd (snd (save self session)) = Inl e"
  by (simp add: save_def Let_def changed_one_argument split: sum.splits)

text \<open>Neither call touches the table of the tracker, so \<^verbatim>\<open>last_change\<close> reads the same.\<close>

lemma session_commit_tracker:
  "session_commit s = Inr s' \<Longrightarrow>
     periodictaskschanged s' = periodictaskschanged s \<and> db_fault s' = db_fault s"
  by (auto simp: session_commit_def split: option.splits)

lemma save_tracker_unchanged:
  "periodictaskschanged (fst (snd (save self session))) = periodictaskschanged session
   \<and> db_fault (fst (snd (save self session))) = db_fault session"
  by (auto simp: save_def Let_def session_add_def split: sum.splits dest: session_commit_tracker)

lemma delete_tracker_unchanged:
  "periodictaskschanged (fst (snd (delete self session))) = periodictaskschanged session
   \<and> db_fault (fst (snd (delete self session))) = db_fault session"
  by (simp add: delete_def Let_def session_delete_def)

lemma last_change_cong:
  "periodictaskschanged s' = periodictaskschanged s \<Longrightarrow> db_fault s' = db_fault s \<Longrightarrow>
     last_change s' = last_change s"
  by (cases "db_fault s") (simp_all add: last_change_def session_get_changed_def)

lemma last_change_after_save:
  "last_change (fst (snd (save self session))) = last_change session"
  by (rule last_change_cong) (simp_all add: save_tracker_unchanged)

lemma last_change_after_delete:
  "last_change (fst (snd (delete self session))) = last_change session"
  by (rule last_change_cong) (simp_all add: delete_tracker_unchanged)

lemma tracker_row_last_update: "last_update tracker_row = nowfun 5"
  by (simp add: tracker_row_def PeriodicTasksChanged.defs ModelMixin.defs)

lemma session_tracked_rows:
  "periodictaskschanged session_tracked = [tracker_row]" "db_fault session_tracked = None"
  "flushed session_tracked = []" "pending session_tracked = []"
  by (simp_all add: session_tracked_def session0_def)

text \<open>
  C2, at a task with an interval schedule and a session whose tracker row was written at
  time 5: \<^verbatim>\<open>save\<close> commits the task and then raises \<^verbatim>\<open>TypeError\<close>, \<^verbatim>\<open>delete\<close>
  raises it as well, and after either the table of the tracker holds the same one row,
  with \<^verbatim>\<open>last_update\<close> still the time 5, whenever the call was made; \<^verbatim>\<open>last_change\<close>
  gives after the call what it gave before.
\<close>

theorem save_delete_leave_tracker_stale:
  "snd (snd (save task_interval session_tracked)) =
      Inl (TypeError ''changed() missing 1 required positional argument: instance'')
   \<and> flushed (fst (snd (save task_interval session_tracked))) = [Put task_interval]
   \<and> periodictaskschanged (fst (snd (save task_interval session_tracked))) = [tracker_row]
   \<and> last_change (fst (snd (save task_interval session_tracked))) = last_change session_tracked
   \<and> snd (snd (delete task_interval session_tracked)) =
      Inl (TypeError ''changed() missing 1 required positional argument: instance'')
   \<and> periodictaskschanged (fst (snd (delete task_interval session_tracked))) = [tracker_row]
   \<and> last_change (fst (snd (delete task_interval session_tracked))) =
        last_change session_tracked
   \<and> last_update tracker_row = nowfun 5"
proof (intro conjI)
  note fault = session_tracked_rows(2)
  from fault show "snd (snd (save task_interval session_tracked)) =
      Inl (TypeError ''changed() missing 1 required positional argument: instance'')"
    by (rule save_outcome)
  have "enabled task_interval"
    by (simp add: example_defs)
  then show "flushed (fst (snd (save task_interval session_tracked))) = [Put task_interval]"
    using save_session [OF fault, of task_interval]
    by (simp add: save_object session_tracked_rows)
  show "periodictaskschanged (fst (snd (save task_interval session_tracked))) = [tracker_row]"
    by (simp add: save_tracker_unchanged session_tracked_rows)
  show "last_change (fst (snd (save task_interval session_tracked))) =
      last_change session_tracked"
    by (rule last_change_after_save)
  show "snd (snd (delete task_interval session_tracked)) =
      Inl (TypeError ''changed() missing 1 required positional argument: instance'')"
    by (rule delete_outcome)
  show "periodictaskschanged (fst (snd (delete task_interval session_tracked))) = [tracker_row]"
    by (simp add: delete_tracker_unchanged session_tracked_rows)
  show "last_change (fst (snd (delete task_interval session_tracked))) =
      last_change session_tracked"
    by (rule last_change_after_delete)
  show "last_update tracker_row = nowfun 5"
    by (rule tracker_row_last_update)
qed

section \<open>Reading the change tracker\<close>

text \<open>The body of \<^verbatim>\<open>last_change\<close>, on each outcome of \<^verbatim>\<open>session.get\<close>.\<close>

lemma last_change_of_row: "last_change_of (Inr (Some row)) = Inr (Some (last_update row))"
  by (simp add: last_change_of_def)

lemma last_change_of_None: "last_change_of (Inr None) = Inl (AttributeError ''last_update'')"
  by (simp add: last_change_of_def)

lemma last_change_of_NoResultFound: "last_change_of (Inl NoResultFound) = Inr None"
  by (simp add: last_change_of_def)

text \<open>
  The call gives one value for a primary key of two columns, so on a working database it
  raises \<^verbatim>\<open>InvalidRequestError\<close>, whatever the table holds, and \<^verbatim>\<open>last_change\<close> lets
  it through.
\<close>

lemma session_get_changed_one_value:
  "db_fault s = None \<Longrightarrow>
     session_get_changed s [i] =
       Inl (InvalidRequestError
              ''Incorrect number of values in identifier to formulate primary key'')"
  by (simp add: session_get_changed_def PeriodicTasksChanged_primary_key_def)

lemma last_change_raises:
  "db_fault s = None \<Longrightarrow>
     last_change s =
       Inl (InvalidRequestError
              ''Incorrect number of values in identifier to formulate primary key'')"
  by (simp add: last_change_def session_get_changed_one_value last_change_of_def)

text \<open>
  C7, at a session on a database where no tracker row was ever written, and at one with
  the row written at time 5: in both \<^verbatim>\<open>last_change\<close> ends with the
  \<^verbatim>\<open>InvalidRequestError\<close> of \<^verbatim>\<open>session.get\<close>, which the handler does not catch; it
  returns neither \<^verbatim>\<open>None\<close> nor the time of the row. Where \<^verbatim>\<open>session.get\<close> finds no
  row and returns \<^verbatim>\<open>None\<close>, the body raises \<^verbatim>\<open>AttributeError\<close>; it gives \<^verbatim>\<open>None\<close>
  only for a \<^verbatim>\<open>NoResultFound\<close>.
\<close>

theorem last_change_without_row_raises:
  "last_change session0 =
     Inl (InvalidRequestError
            ''Incorrect number of values in identifier to formulate primary key'')
   \<and> last_change session_tracked =
     Inl (InvalidRequestError
            ''Incorrect number of values in identifier to formulate primary key'')
   \<and> last_change_of (Inr None) = Inl (AttributeError ''last_update'')
   \<and> last_change_of (Inl NoResultFound) = Inr None"
proof (intro conjI)
  have "db_fault session0 = None"
    by (simp add: session0_def)
  then show "last_change session0 =
     Inl (InvalidRequestError
            ''Incorrect number of values in identifier to formulate primary key'')"
    by (rule last_change_raises)
  from session_tracked_rows(2) show "last_change session_tracked =
     Inl (InvalidRequestError
            ''Incorrect number of values in identifier to formulate primary key'')"
    by (rule last_change_raises)
  show "last_change_of (Inr None) = Inl (AttributeError ''last_update'')"
    by (rule last_change_of_None)
  show "last_change_of (Inl NoResultFound) = Inr None"
    by (rule last_change_of_NoResultFound)
qed

section \<open>The solar schedule\<close>

subsection \<open>Latitude and longitude\<close>

text \<open>
  The validators raise \<^verbatim>\<open>ValueError\<close> for every value below the lower or above the
  upper bound, the infinities among them, and return every value within the bounds as it
  is.
\<close>

lemma validate_latitude_Finite:
  "validate_latitude (Finite x) =
     (if x < - 90 \<or> 90 < x then Inl (ValueError ''latitude must be between -90 and 90'')
      else Inr (Finite x))"
  by (simp add: validate_latitude_def float_gt_def)

lemma validate_longitude_Finite:
  "validate_longitude (Finite y) =
     (if y < - 180 \<or> 180 < y then Inl (ValueError ''longitude must be between -180 and 180'')
      else Inr (Finite y))"
  by (simp add: validate_longitude_def float_gt_def)

lemma validate_infinite:
  "validate_latitude PosInf = Inl (ValueError ''latitude must be between -90 and 90'')"
  "validate_latitude NegInf = Inl (ValueError ''latitude must be between -90 and 90'')"
  "validate_longitude PosInf = Inl (ValueError ''longitude must be between -180 and 180'')"
  "validate_longitude NegInf = Inl (ValueError ''longitude must be between -180 and 180'')"
  by (simp_all add: validate_latitude_def validate_longitude_def float_gt_def)

text \<open>NaN lies in neither range: it is not between the bounds.\<close>

lemma NaN_outside:
  "\<not> (float_le (Finite (- 90)) NaN \<and> float_le NaN (Finite 90))"
  "\<not> (float_le (Finite (- 180)) NaN \<and> float_le NaN (Finite 180))"
  by simp_all

text \<open>
  C8, at the latitude NaN and the longitude NaN, which lie outside [-90, 90] and
  [-180, 180]: NaN is neither less than the lower bound nor greater than the upper one,
  so each validator returns it, and the value is accepted as it is.
\<close>

theorem validators_accept_NaN:
  "validate_latitude NaN = Inr NaN
   \<and> validate_longitude NaN = Inr NaN
   \<and> \<not> float_le (Finite (- 90)) NaN \<and> \<not> float_le NaN (Finite 90)
   \<and> \<not> float_le (Finite (- 180)) NaN \<and> \<not> float_le NaN (Finite 180)"
  by (simp add: validate_latitude_def validate_longitude_def float_gt_def)

subsection \<open>The schedule and its now-function\<close>

lemma make_aware_naive:
  "tzinfo value = None \<Longrightarrow> make_aware value = Inr (value\<lparr>tzinfo := Some (ZoneInfo ''UTC'')\<rparr>)"
  by (simp add: make_aware_def replace_tzinfo_def)

lemma make_aware_aware:
  "tzinfo value \<noteq> None \<Longrightarrow> make_aware value = Inl (AttributeError ''localize'')"
  by (simp add: make_aware_def ZoneInfo_call_def ZoneInfo_attributes_def)

lemma make_aware_nowfun: "make_aware (nowfun clock) = Inl (AttributeError ''localize'')"
  by (rule make_aware_aware) (simp add: nowfun_def replace_tzinfo_def)

text \<open>A schedule that the constructor accepts reads the time through the function given.\<close>

lemma solar_init_nowfun: "solar_init ev lat lon nf = Inr s \<Longrightarrow> solar_nowfun s = nf"
  by (auto simp: solar_init_def split: event_arg.splits if_splits)

text \<open>
  C3, at every \<^verbatim>\<open>SolarSchedule\<close> and every reading of the clock: the now-function
  that \<^verbatim>\<open>schedule\<close> builds for the solar schedule raises \<^verbatim>\<open>AttributeError\<close>. The
  value \<^verbatim>\<open>nowfun()\<close> is aware, \<^verbatim>\<open>make_aware\<close> takes the branch for aware values, and
  that branch calls \<^verbatim>\<open>localize\<close> on a \<^verbatim>\<open>ZoneInfo\<close>. The property itself raises
  \<^verbatim>\<open>ValueError\<close> before any schedule exists: it passes the member of \<^verbatim>\<open>SolarEvent\<close>
  where the constructor wants the name of the event.
\<close>

theorem solar_nowfun_raises:
  "SolarSchedule_nowfun clock = Inl (AttributeError ''localize'')
   \<and> SolarSchedule_schedule self =
       Inl (ValueError ''Solar event must be one of the event names'')"
  by (simp add: SolarSchedule_nowfun_def make_aware_nowfun SolarSchedule_schedule_def
      solar_init_def)

section \<open>The widths of the crontab fields\<close>

lemma expanded_lengths:
  "length (str_list all_minutes) = 230"
  "length (str_list all_hours) = 86"
  "length (str_list all_days_of_month) = 115"
  "length (str_list all_days_of_week) = 21"
  "length (str_list all_months) = 39"
  by code_simp+

text \<open>
  C9. The declared widths are 240 for \<^verbatim>\<open>minute\<close>, 96 for \<^verbatim>\<open>hour\<close>, 124 for
  \<^verbatim>\<open>day_of_month\<close> and 64 for \<^verbatim>\<open>day_of_week\<close> and \<^verbatim>\<open>month_of_year\<close>; a field
  admits exactly the strings up to its width; and the expanded form of each field with
  all its values listed (minutes 0 to 59, hours 0 to 23, days 1 to 31, weekdays 0 to 6,
  months 1 to 12) fits, so a schedule that holds all five passes the check of the widths.
\<close>

theorem crontab_field_widths:
  "minute_max_length = 240
   \<and> hour_max_length = 96
   \<and> day_of_month_max_length = 124
   \<and> day_of_week_max_length = 64
   \<and> month_of_year_max_length = 64
   \<and> (\<forall>s. max_length_ok minute_max_length s = (length s \<le> 240))
   \<and> (\<forall>s. max_length_ok hour_max_length s = (length s \<le> 96))
   \<and> (\<forall>s. max_length_ok day_of_month_max_length s = (length s \<le> 124))
   \<and> (\<forall>s. max_length_ok day_of_week_max_length s = (length s \<le> 64))
   \<and> (\<forall>s. max_length_ok month_of_year_max_length s = (length s \<le> 64))
   \<and> max_length_ok minute_max_length (str_list all_minutes)
   \<and> max_length_ok hour_max_length (str_list all_hours)
   \<and> max_length_ok day_of_month_max_length (str_list all_days_of_month)
   \<and> max_length_ok day_of_week_max_length (str_list all_days_of_week)
   \<and> max_length_ok month_of_year_max_length (str_list all_months)
   \<and> CrontabSchedule_widths_ok crontab_expanded"
  by (simp add: max_length_ok_def expanded_lengths minute_max_length_def hour_max_length_def
      day_of_month_max_length_def day_of_week_max_length_def month_of_year_max_length_def
      CrontabSchedule_widths_ok_def crontab_expanded_def CrontabSchedule.defs ModelMixin.defs)

section \<open>The scheduler of a task\<close>

lemma getattr_interval:
  "getattr self ''interval'' = Inr (of_option PyInterval (interval self))"
  by (simp add: getattr_def PeriodicTask_dict_def)

text \<open>The class declares the relationship as \<^verbatim>\<open>cron\<close>; it has no attribute \<^verbatim>\<open>crontab\<close>.\<close>

lemma getattr_crontab: "getattr self ''crontab'' = Inl (AttributeError ''crontab'')"
  by (simp add: getattr_def PeriodicTask_dict_def)

lemma getattr_cron: "getattr self ''cron'' = Inr (of_option PyCrontab (cron self))"
  by (simp add: getattr_def PeriodicTask_dict_def)

lemma scheduler_interval_set:
  "interval self = Some i \<Longrightarrow> scheduler self = Inr (PyInterval i)"
  by (simp add: scheduler_def probe_def getattr_interval)

lemma scheduler_interval_unset:
  "interval self = None \<Longrightarrow> scheduler self = Inl (AttributeError ''crontab'')"
  by (simp add: scheduler_def probe_def getattr_interval getattr_crontab)

lemma schedule_interval_unset:
  "interval self = None \<Longrightarrow> schedule read_schedule self = Inl (AttributeError ''crontab'')"
  by (simp add: schedule_def scheduler_interval_unset)

text \<open>
  C10, at the task with no schedule reference and at the tasks with only \<^verbatim>\<open>cron\<close>,
  only \<^verbatim>\<open>solar\<close> or only \<^verbatim>\<open>clocked\<close> set: \<^verbatim>\<open>scheduler\<close> raises
  \<^verbatim>\<open>AttributeError\<close> at the probe \<^verbatim>\<open>self.crontab\<close>, and so does \<^verbatim>\<open>schedule\<close>. With
  only \<^verbatim>\<open>interval\<close> set, \<^verbatim>\<open>scheduler\<close> returns the interval schedule.
\<close>

theorem scheduler_probe_crontab_raises:
  "scheduler task0 = Inl (AttributeError ''crontab'')
   \<and> schedule read_schedule task0 = Inl (AttributeError ''crontab'')
   \<and> scheduler (task0\<lparr>cron := Some crontab_hourly\<rparr>) = Inl (AttributeError ''crontab'')
   \<and> scheduler (task0\<lparr>solar := Some solar_nyc\<rparr>) = Inl (AttributeError ''crontab'')
   \<and> scheduler (task0\<lparr>clocked := Some clocked_once\<rparr>) = Inl (AttributeError ''crontab'')
   \<and> scheduler task_interval = Inr (PyInterval interval_30s)"
proof -
  have none: "interval task0 = None"
    by (simp add: task0_def PeriodicTask.defs ModelMixin.defs)
  then have "interval (task0\<lparr>cron := Some crontab_hourly\<rparr>) = None"
    and "interval (task0\<lparr>solar := Some solar_nyc\<rparr>) = None"
    and "interval (task0\<lparr>clocked := Some clocked_once\<rparr>) = None"
    by simp_all
  moreover have "interval task_interval = Some interval_30s"
    by (simp add: task_interval_def)
  ultimately show ?thesis
    using none
    by (simp add: scheduler_interval_unset schedule_interval_unset scheduler_interval_set)
qed

end
